theory Spec2Isabelle
  imports Complex_Main
begin

section \<open>The run state store (src/store.ts)\<close>

text \<open>
  The store is a zustand store: one state object, read with \<open>get()\<close> and updated with
  \<open>set(partial)\<close>, which merges the given fields into the current state. Each action
  is modelled as a function from the state before the call to the state after it.
  JavaScript numbers are modelled by \<open>int\<close> where the game holds whole numbers
  (score, lives, level, lane count, multiplier, letter indices, millisecond timestamps,
  and the amounts, costs and gem values the callers pass) and by \<open>real\<close> for speed and
  distance; rounding, NaN and infinities are outside the model.
  \<open>Date.now()\<close> is the parameter \<open>now\<close> of the actions that read the clock.
\<close>

datatype GameStatus = MENU | PLAYING | SHOP | GAME_OVER | VICTORY

record GameState =
  status :: GameStatus
  score :: int
  lives :: int
  maxLives :: int
  speed :: real
  collectedLetters :: "int list"
  level :: int
  laneCount :: int
  gemsCollected :: int
  distance :: real
  multiplier :: int
  multiplierEndTime :: int
  hasDoubleJump :: bool
  hasImmortality :: bool
  isImmortalityActive :: bool

text \<open>
  \<open>RUN_SPEED_BASE\<close>, \<open>COMBO_WINDOW_MS\<close> and \<open>MAX_MULTIPLIER\<close> are imported from
  \<open>./types\<close>, which is not among the sources; they are parameters of the model.
\<close>

record Constants =
  RUN_SPEED_BASE :: real
  COMBO_WINDOW_MS :: int
  MAX_MULTIPLIER :: int

definition GEMINI_TARGET :: "string list" where
  "GEMINI_TARGET = [''G'', ''E'', ''M'', ''I'', ''N'', ''I'']"

definition MAX_LEVEL :: int where
  "MAX_LEVEL = 3"

text \<open>The initial state of the store, before any action.\<close>

definition initialState :: GameState where
  "initialState = \<lparr> status = MENU, score = 0, lives = 3, maxLives = 3, speed = 0,
     collectedLetters = [], level = 1, laneCount = 3, gemsCollected = 0, distance = 0,
     multiplier = 1, multiplierEndTime = 0,
     hasDoubleJump = False, hasImmortality = False, isImmortalityActive = False \<rparr>"

definition startGame :: "Constants \<Rightarrow> GameState \<Rightarrow> GameState" where
  "startGame c s = s\<lparr> status := PLAYING, score := 0, lives := 3, maxLives := 3,
     speed := RUN_SPEED_BASE c, collectedLetters := [], level := 1, laneCount := 3,
     gemsCollected := 0, distance := 0, multiplier := 1, multiplierEndTime := 0,
     hasDoubleJump := False, hasImmortality := False, isImmortalityActive := False \<rparr>"

definition restartGame :: "Constants \<Rightarrow> GameState \<Rightarrow> GameState" where
  "restartGame c s = s\<lparr> status := PLAYING, score := 0, lives := 3, maxLives := 3,
     speed := RUN_SPEED_BASE c, collectedLetters := [], level := 1, laneCount := 3,
     gemsCollected := 0, distance := 0, multiplier := 1, multiplierEndTime := 0,
     hasDoubleJump := False, hasImmortality := False, isImmortalityActive := False \<rparr>"

definition takeDamage :: "GameState \<Rightarrow> GameState" where
  "takeDamage s =
     (if isImmortalityActive s then s
      else
        let s1 = s\<lparr> multiplier := 1, multiplierEndTime := 0 \<rparr>
        in if lives s > 1 then s1\<lparr> lives := lives s - 1 \<rparr>
           else s1\<lparr> lives := 0, status := GAME_OVER, speed := 0 \<rparr>)"

definition addScore :: "int \<Rightarrow> GameState \<Rightarrow> GameState" where
  "addScore amount s = s\<lparr> score := score s + amount \<rparr>"

definition tickCombo :: "int \<Rightarrow> GameState \<Rightarrow> GameState" where
  "tickCombo now s =
     (if status s = PLAYING \<and> multiplier s > 1 \<and> now > multiplierEndTime s
      then s\<lparr> multiplier := 1 \<rparr> else s)"

definition collectGem :: "Constants \<Rightarrow> int \<Rightarrow> int \<Rightarrow> GameState \<Rightarrow> GameState" where
  "collectGem c now val s =
     (let isComboActive = now < multiplierEndTime s;
          newMultiplier = (if isComboActive then min (multiplier s + 1) (MAX_MULTIPLIER c) else 1);
          newEndTime = now + COMBO_WINDOW_MS c
      in s\<lparr> score := score s + val * newMultiplier,
              gemsCollected := gemsCollected s + 1,
              multiplier := newMultiplier,
              multiplierEndTime := newEndTime \<rparr>)"

definition setDistance :: "real \<Rightarrow> GameState \<Rightarrow> GameState" where
  "setDistance d s = s\<lparr> distance := d \<rparr>"

definition advanceLevel :: "Constants \<Rightarrow> GameState \<Rightarrow> GameState" where
  "advanceLevel c s =
     (let nextLevel = level s + 1;
          speedIncrease = RUN_SPEED_BASE c * 0.40;
          newSpeed = speed s + speedIncrease
      in s\<lparr> level := nextLevel,
              laneCount := min (laneCount s + 2) 9,
              status := PLAYING,
              speed := newSpeed,
              collectedLetters := [] \<rparr>)"

text \<open>
  \<open>collectLetter\<close> builds the object \<open>updates\<close> and passes it to \<open>set\<close> at the end.
  Nothing else writes the store in between, so \<open>updates\<close> is modelled by the state with
  those fields already merged. On the branch that calls \<open>advanceLevel\<close> the function
  returns before \<open>set(updates)\<close>: \<open>advanceLevel\<close> runs on the store as it was at entry
  and \<open>updates\<close> is dropped.
\<close>

definition collectLetter :: "Constants \<Rightarrow> int \<Rightarrow> int \<Rightarrow> GameState \<Rightarrow> GameState" where
  "collectLetter c now index s =
     (let isComboActive = now < multiplierEndTime s;
          newMultiplier = (if isComboActive then min (multiplier s + 1) (MAX_MULTIPLIER c) else 1);
          newEndTime = now + COMBO_WINDOW_MS c;
          letterScore = 500 * newMultiplier;
          updates = s\<lparr> score := score s + letterScore,
                        multiplier := newMultiplier,
                        multiplierEndTime := newEndTime \<rparr>
      in if index \<notin> set (collectedLetters s) then
           let newLetters = collectedLetters s @ [index];
               speedIncrease = RUN_SPEED_BASE c * 0.10;
               nextSpeed = speed s + speedIncrease;
               updates2 = updates\<lparr> collectedLetters := newLetters, speed := nextSpeed \<rparr>
           in if length newLetters = length GEMINI_TARGET then
                if level s < MAX_LEVEL then advanceLevel c s
                else updates2\<lparr> status := VICTORY, score := score updates2 + 5000 \<rparr>
              else updates2
         else updates)"

definition openShop :: "GameState \<Rightarrow> GameState" where
  "openShop s = s\<lparr> status := SHOP \<rparr>"

definition closeShop :: "GameState \<Rightarrow> GameState" where
  "closeShop s = s\<lparr> status := PLAYING \<rparr>"

datatype ItemType = DOUBLE_JUMP | MAX_LIFE | HEAL | IMMORTAL

text \<open>\<open>buyItem\<close> returns the boolean it reports together with the state it leaves.\<close>

definition buyItem :: "ItemType \<Rightarrow> int \<Rightarrow> GameState \<Rightarrow> bool \<times> GameState" where
  "buyItem item cost s =
     (if score s \<ge> cost then
        let s1 = s\<lparr> score := score s - cost \<rparr>
        in (True,
            case item of
              DOUBLE_JUMP \<Rightarrow> s1\<lparr> hasDoubleJump := True \<rparr>
            | MAX_LIFE \<Rightarrow> s1\<lparr> maxLives := maxLives s + 1, lives := lives s + 1 \<rparr>
            | HEAL \<Rightarrow> s1\<lparr> lives := min (lives s + 1) (maxLives s) \<rparr>
            | IMMORTAL \<Rightarrow> s1\<lparr> hasImmortality := True \<rparr>)
      else (False, s))"

definition setStatus :: "GameStatus \<Rightarrow> GameState \<Rightarrow> GameState" where
  "setStatus st s = s\<lparr> status := st \<rparr>"

definition increaseLevel :: "GameState \<Rightarrow> GameState" where
  "increaseLevel s = s\<lparr> level := level s + 1 \<rparr>"

text \<open>
  \<open>activateImmortality\<close> sets the flag and schedules a callback with
  \<open>setTimeout(..., 5000)\<close>. The model returns the new state and, when a callback was
  scheduled, the time at which it falls due. \<open>immortalityTimeout\<close> is the callback.
\<close>

definition activateImmortality :: "int \<Rightarrow> GameState \<Rightarrow> GameState \<times> int option" where
  "activateImmortality now s =
     (if hasImmortality s \<and> \<not> isImmortalityActive s
      then (s\<lparr> isImmortalityActive := True \<rparr>, Some (now + 5000))
      else (s, None))"

definition immortalityTimeout :: "GameState \<Rightarrow> GameState" where
  "immortalityTimeout s = s\<lparr> isImmortalityActive := False \<rparr>"

subsection \<open>All actions of the store, and the pending expiry callbacks\<close>

datatype Action =
    StartGame | RestartGame | TakeDamage | AddScore int | CollectGem int | CollectLetter int
  | SetStatus GameStatus | SetDistance real | TickCombo | BuyItem ItemType int | AdvanceLevel
  | OpenShop | CloseShop | ActivateImmortality | IncreaseLevel

text \<open>
  One call of an action at clock time \<open>now\<close>: the state it leaves and the due time of the
  callback it scheduled, if any. The boolean of \<open>buyItem\<close> is dropped here.
\<close>

fun perform :: "Constants \<Rightarrow> int \<Rightarrow> Action \<Rightarrow> GameState \<Rightarrow> GameState \<times> int option" where
  "perform c now StartGame s = (startGame c s, None)"
| "perform c now RestartGame s = (restartGame c s, None)"
| "perform c now TakeDamage s = (takeDamage s, None)"
| "perform c now (AddScore amount) s = (addScore amount s, None)"
| "perform c now (CollectGem v) s = (collectGem c now v s, None)"
| "perform c now (CollectLetter i) s = (collectLetter c now i s, None)"
| "perform c now (SetStatus st) s = (setStatus st s, None)"
| "perform c now (SetDistance d) s = (setDistance d s, None)"
| "perform c now TickCombo s = (tickCombo now s, None)"
| "perform c now (BuyItem item cost) s = (snd (buyItem item cost s), None)"
| "perform c now AdvanceLevel s = (advanceLevel c s, None)"
| "perform c now OpenShop s = (openShop s, None)"
| "perform c now CloseShop s = (closeShop s, None)"
| "perform c now ActivateImmortality s = activateImmortality now s"
| "perform c now IncreaseLevel s = (increaseLevel s, None)"

text \<open>
  The store together with the callbacks that \<open>setTimeout\<close> holds: \<open>pending\<close> lists their
  due times. No action of the store cancels a callback (there is no \<open>clearTimeout\<close>).
  The host runs on one thread: a callback whose time has come runs before the next call.
\<close>

record Runtime =
  store :: GameState
  pending :: "int list"

definition fireTimers :: "int \<Rightarrow> Runtime \<Rightarrow> Runtime" where
  "fireTimers now rt =
     rt\<lparr> store := fold (\<lambda>_. immortalityTimeout) (filter (\<lambda>due. due \<le> now) (pending rt)) (store rt),
         pending := filter (\<lambda>due. \<not> due \<le> now) (pending rt) \<rparr>"

definition dispatch :: "Constants \<Rightarrow> int \<Rightarrow> Action \<Rightarrow> Runtime \<Rightarrow> Runtime" where
  "dispatch c now a rt =
     (let rt1 = fireTimers now rt;
          r = perform c now a (store rt1)
      in rt1\<lparr> store := fst r,
              pending := pending rt1 @ (case snd r of None \<Rightarrow> [] | Some due \<Rightarrow> [due]) \<rparr>)"

fun run :: "Constants \<Rightarrow> (int \<times> Action) list \<Rightarrow> Runtime \<Rightarrow> Runtime" where
  "run c [] rt = rt"
| "run c ((now, a) # rest) rt = run c rest (dispatch c now a rt)"

definition boot :: Runtime where
  "boot = \<lparr> store = initialState, pending = [] \<rparr>"

subsection \<open>The specification's combo rule and status graph\<close>

text \<open>
  The multiplier the specification's combo rule assigns to a pickup at time \<open>now\<close>:
  \<open>active ? min(multiplier+1, MAX_MULTIPLIER) : 1\<close> with \<open>active = now < multiplierEndTime\<close>.
\<close>

definition comboMultiplier :: "Constants \<Rightarrow> int \<Rightarrow> GameState \<Rightarrow> int" where
  "comboMultiplier c now s =
     (if now < multiplierEndTime s then min (multiplier s + 1) (MAX_MULTIPLIER c) else 1)"

text \<open>
  The letter-score property as the specification words it: the call adds exactly
  \<open>500 \<times> newMultiplier\<close> to the score and refreshes the combo window.
\<close>

definition letterScoreRule :: "Constants \<Rightarrow> int \<Rightarrow> int \<Rightarrow> GameState \<Rightarrow> bool" where
  "letterScoreRule c now index s =
     (score (collectLetter c now index s) = score s + 500 * comboMultiplier c now s
      \<and> multiplierEndTime (collectLetter c now index s) = now + COMBO_WINDOW_MS c)"

text \<open>
  The call completes the word: the index is new and is the last of the
  \<open>GEMINI_TARGET.length\<close> letters.
\<close>

definition completesWord :: "int \<Rightarrow> GameState \<Rightarrow> bool" where
  "completesWord index s =
     (index \<notin> set (collectedLetters s)
      \<and> length (collectedLetters s @ [index]) = length GEMINI_TARGET)"

text \<open>
  The edges of the specification's status graph: MENU to PLAYING; PLAYING to SHOP,
  GAME_OVER or VICTORY; SHOP, GAME_OVER and VICTORY back to PLAYING.
\<close>

fun specEdge :: "GameStatus \<Rightarrow> GameStatus \<Rightarrow> bool" where
  "specEdge MENU PLAYING = True"
| "specEdge PLAYING SHOP = True"
| "specEdge PLAYING GAME_OVER = True"
| "specEdge PLAYING VICTORY = True"
| "specEdge SHOP PLAYING = True"
| "specEdge GAME_OVER PLAYING = True"
| "specEdge VICTORY PLAYING = True"
| "specEdge _ _ = False"

text \<open>
  The actions that write SHOP, GAME_OVER or VICTORY: \<open>openShop\<close>, \<open>takeDamage\<close> and
  \<open>collectLetter\<close>. The graph has edges into these statuses from PLAYING only.
\<close>

fun needsPlaying :: "Action \<Rightarrow> bool" where
  "needsPlaying OpenShop = True"
| "needsPlaying TakeDamage = True"
| "needsPlaying (CollectLetter _) = True"
| "needsPlaying _ = False"

fun isSetStatus :: "Action \<Rightarrow> bool" where
  "isSetStatus (SetStatus _) = True"
| "isSetStatus _ = False"

subsection \<open>Sequences of pickups\<close>

datatype Pickup = Gem int | Letter int

fun pickup :: "Constants \<Rightarrow> int \<Rightarrow> Pickup \<Rightarrow> GameState \<Rightarrow> GameState" where
  "pickup c now (Gem v) s = collectGem c now v s"
| "pickup c now (Letter i) s = collectLetter c now i s"

fun pickups :: "Constants \<Rightarrow> (int \<times> Pickup) list \<Rightarrow> GameState \<Rightarrow> GameState" where
  "pickups c [] s = s"
| "pickups c ((now, p) # rest) s = pickups c rest (pickup c now p s)"

text \<open>
  Each pickup of the list comes less than \<open>w\<close> after the one before it; \<open>prev\<close> is the
  time of the last pickup before the list.
\<close>

fun spaced :: "int \<Rightarrow> int \<Rightarrow> (int \<times> Pickup) list \<Rightarrow> bool" where
  "spaced w prev [] = True"
| "spaced w prev ((now, p) # rest) = (now < prev + w \<and> spaced w now rest)"

text \<open>No letter of the list completes the word below \<open>MAX_LEVEL\<close> in the state it meets.\<close>

fun noLevelUp :: "Constants \<Rightarrow> (int \<times> Pickup) list \<Rightarrow> GameState \<Rightarrow> bool" where
  "noLevelUp c [] s = True"
| "noLevelUp c ((now, Gem v) # rest) s = noLevelUp c rest (collectGem c now v s)"
| "noLevelUp c ((now, Letter i) # rest) s =
     (\<not> (completesWord i s \<and> level s < MAX_LEVEL) \<and> noLevelUp c rest (collectLetter c now i s))"

subsection \<open>Sample constants and states\<close>

text \<open>Sample values of the constants and sample states, for concrete instances.\<close>

definition sampleConstants :: Constants where
  "sampleConstants = \<lparr> RUN_SPEED_BASE = 20, COMBO_WINDOW_MS = 2000, MAX_MULTIPLIER = 5 \<rparr>"

definition fiveLetters :: "int \<Rightarrow> GameState" where
  "fiveLetters lv = (startGame sampleConstants initialState)
     \<lparr> collectedLetters := [0, 1, 2, 3, 4], level := lv, score := 1200,
       multiplier := 2, multiplierEndTime := 9000 \<rparr>"

definition shielded :: GameState where
  "shielded = (startGame sampleConstants initialState)
     \<lparr> hasImmortality := True, isImmortalityActive := True, multiplier := 3,
       multiplierEndTime := 9000 \<rparr>"

definition lastLife :: GameState where
  "lastLife = (startGame sampleConstants initialState)
     \<lparr> lives := 1, multiplier := 3, multiplierEndTime := 9000 \<rparr>"

definition shopper :: GameState where
  "shopper = (startGame sampleConstants initialState) \<lparr> score := 1500, lives := 2 \<rparr>"

definition healthy :: GameState where
  "healthy = (startGame sampleConstants initialState) \<lparr> score := 1500 \<rparr>"

text \<open>
  A trace of calls: a run in which immortality is bought and activated at time 1000, a
  restart at time 2000, and a second purchase and activation at time 3000.
\<close>

definition staleTimerTrace :: "(int \<times> Action) list" where
  "staleTimerTrace =
     [(0, StartGame), (100, AddScore 3000), (200, BuyItem IMMORTAL 3000),
      (1000, ActivateImmortality),
      (2000, RestartGame), (2100, AddScore 3000), (2200, BuyItem IMMORTAL 3000),
      (3000, ActivateImmortality)]"

definition gameOverFive :: GameState where
  "gameOverFive = (fiveLetters 3) \<lparr> status := GAME_OVER, lives := 0, speed := 0 \<rparr>"

definition shopLastLife :: GameState where
  "shopLastLife = lastLife \<lparr> status := SHOP \<rparr>"

definition inShop :: GameState where
  "inShop = shopper \<lparr> status := SHOP \<rparr>"

section \<open>The level manager's frame (LevelManager, the per-frame callback)\<close>

text \<open>
  The frame callback runs only while the status is PLAYING. It ticks the combo, clamps
  the frame's \<open>delta\<close> to \<open>safeDelta = min(delta, 0.05)\<close>, runs the boss logic, then
  walks over \<open>objectsRef.current\<close> (step 1, "Move and Update"), spawns new objects
  (step 2) and, if anything changed, replaces \<open>objectsRef.current\<close> by \<open>keptObjects\<close>.
  Modelled here are step 1 and the final replacement. The boss logic and step 2 draw on
  \<open>Math.random\<close>; what they push enters the model as given lists of objects.
  \<open>GameObject\<close> is declared in \<open>types.ts\<close>, which is not among the sources; its fields
  are the ones the frame reads and writes, optional where the object literals leave
  them out. Numbers are \<open>real\<close>.
\<close>

datatype ObjectType = OBSTACLE | GEM | LETTER | SHOP_PORTAL | ALIEN | MISSILE | BOSS | BOSS_BEAM

datatype BeamState = WARNING | ACTIVE

type_synonym vec3 = "real \<times> real \<times> real"

fun vecX :: "vec3 \<Rightarrow> real" where
  "vecX (a, b, c) = a"

fun vecY :: "vec3 \<Rightarrow> real" where
  "vecY (a, b, c) = b"

fun vecZ :: "vec3 \<Rightarrow> real" where
  "vecZ (a, b, c) = c"

fun setZ :: "vec3 \<Rightarrow> real \<Rightarrow> vec3" where
  "setZ (a, b, c) z = (a, b, z)"

record GameObject =
  obj_id :: string
  obj_type :: ObjectType
  position :: vec3
  active :: bool
  color :: "string option"
  points :: "int option"
  targetIndex :: "int option"
  hasFired :: "bool option"
  attackTimer :: "real option"
  beamState :: "BeamState option"
  beamTimer :: "real option"
  beamLane :: "int option"

text \<open>
  What the frame sends out: the window events \<open>player-hit\<close> and \<open>particle-burst\<close>
  (with position and colour), and the two calls into the audio system.
\<close>

datatype GameEvent =
    PlayerHit
  | ParticleBurst vec3 string
  | PlayGemCollect
  | PlayLetterCollect

definition OBSTACLE_HEIGHT :: real where
  "OBSTACLE_HEIGHT = 1.6"

definition MISSILE_SPEED :: real where
  "MISSILE_SPEED = 30"

text \<open>
  What one frame is given: the constants (\<open>LANE_WIDTH\<close> and \<open>REMOVE_DISTANCE\<close> come from
  \<open>types.ts\<close>), the id generator \<open>uuidv4\<close> as a sequence of strings, the clock, the speed
  the component last rendered with, the frame's \<open>delta\<close>, and the player's world position
  when the player object has been found in the scene.
\<close>

record FrameEnv =
  storeConstants :: Constants
  LANE_WIDTH :: real
  REMOVE_DISTANCE :: real
  uuidv4 :: "nat \<Rightarrow> string"
  dateNow :: int
  renderedSpeed :: real
  delta :: real
  playerObj :: "vec3 option"

definition safeDelta :: "FrameEnv \<Rightarrow> real" where
  "safeDelta env = min (delta env) 0.05"

definition frameDist :: "FrameEnv \<Rightarrow> real" where
  "frameDist env = renderedSpeed env * safeDelta env"

definition playerPos :: "FrameEnv \<Rightarrow> vec3" where
  "playerPos env = (case playerObj env of None \<Rightarrow> (0, 0, 0) | Some p \<Rightarrow> p)"

text \<open>
  The variables of the loop, the store it calls into, the events sent so far, and the
  count of ids drawn. The loop changes the objects of \<open>objectsRef.current\<close> in place;
  \<open>visited\<close> holds them as changed, in order, whether kept or not.
\<close>

record FrameState =
  keptObjects :: "GameObject list"
  newSpawns :: "GameObject list"
  hasChanges :: bool
  events :: "GameEvent list"
  gameStore :: GameState
  visited :: "GameObject list"
  uuidCount :: nat

text \<open>The beam object the boss logic pushes for a lane.\<close>

definition newBeam :: "FrameEnv \<Rightarrow> string \<Rightarrow> int \<Rightarrow> GameObject" where
  "newBeam env ident lane =
     \<lparr> obj_id = ident, obj_type = BOSS_BEAM,
       position = (real_of_int lane * LANE_WIDTH env, 1, -20), active = True,
       color = None, points = None, targetIndex = None, hasFired = None, attackTimer = None,
       beamState = Some WARNING, beamTimer = Some 0, beamLane = Some lane \<rparr>"

text \<open>\<open>obj.beamTimer || 0\<close>: a missing timer counts as 0.\<close>

definition beamTimerOr0 :: "GameObject \<Rightarrow> real" where
  "beamTimerOr0 obj = (case beamTimer obj of None \<Rightarrow> 0 | Some t \<Rightarrow> t)"

text \<open>The branch of the loop body for \<open>BOSS_BEAM\<close> objects.\<close>

definition updateBeam :: "FrameEnv \<Rightarrow> GameObject \<Rightarrow> FrameState \<Rightarrow> FrameState" where
  "updateBeam env obj fs =
     (let timer = beamTimerOr0 obj + safeDelta env;
          obj1 = obj\<lparr> beamTimer := Some timer \<rparr>
      in if timer < 2.0 then
           let obj2 = obj1\<lparr> beamState := Some WARNING \<rparr>
           in fs\<lparr> keptObjects := keptObjects fs @ [obj2], visited := visited fs @ [obj2] \<rparr>
         else if timer < 3.0 then
           let obj2 = obj1\<lparr> beamState := Some ACTIVE \<rparr>;
               dx = \<bar>vecX (position obj2) - vecX (playerPos env)\<bar>;
               fs1 = (if dx < 0.9 then fs\<lparr> events := events fs @ [PlayerHit] \<rparr> else fs)
           in fs1\<lparr> keptObjects := keptObjects fs1 @ [obj2], visited := visited fs1 @ [obj2] \<rparr>
         else
           let obj2 = obj1\<lparr> active := False \<rparr>
           in fs\<lparr> hasChanges := True, visited := visited fs @ [obj2] \<rparr>)"

text \<open>The missile an alien fires.\<close>

definition newMissile :: "string \<Rightarrow> vec3 \<Rightarrow> GameObject" where
  "newMissile ident pos =
     \<lparr> obj_id = ident, obj_type = MISSILE,
       position = (vecX pos, 1.0, vecZ pos + 2), active = True,
       color = Some ''#ff0000'', points = None, targetIndex = None, hasFired = None,
       attackTimer = None, beamState = None, beamTimer = None, beamLane = None \<rparr>"

text \<open>"Alien AI": an active alien that has not fired does so once past \<open>z = -90\<close>.\<close>

definition alienAI :: "FrameEnv \<Rightarrow> GameObject \<Rightarrow> FrameState \<Rightarrow> GameObject \<times> FrameState" where
  "alienAI env obj fs =
     (if obj_type obj = ALIEN \<and> active obj \<and> hasFired obj \<noteq> Some True then
        if vecZ (position obj) > -90 then
          (obj\<lparr> hasFired := Some True \<rparr>,
           fs\<lparr> newSpawns := newSpawns fs @ [newMissile (uuidv4 env (uuidCount fs)) (position obj)],
               uuidCount := Suc (uuidCount fs),
               hasChanges := True,
               events := events fs @ [ParticleBurst (position obj) ''#ff00ff''] \<rparr>)
        else (obj, fs)
      else (obj, fs))"

text \<open>
  The collision block for an active object that lies within 0.9 of the player's x and
  in the z zone. It returns the object, and the loop state.
\<close>

definition hitDamageSource :: "FrameEnv \<Rightarrow> GameObject \<Rightarrow> FrameState \<Rightarrow> GameObject \<times> FrameState" where
  "hitDamageSource env obj fs =
     (let playerBottom = vecY (playerPos env);
          playerTop = vecY (playerPos env) + 1.8;
          objBottom = (if obj_type obj = OBSTACLE then 0
                       else if obj_type obj = MISSILE then 0.5
                       else vecY (position obj) - 0.5);
          objTop = (if obj_type obj = OBSTACLE then OBSTACLE_HEIGHT
                    else if obj_type obj = MISSILE then 1.5
                    else vecY (position obj) + 0.5);
          isHit = (playerBottom < objTop \<and> playerTop > objBottom)
      in if isHit then
           (obj\<lparr> active := False \<rparr>,
            fs\<lparr> events := events fs @ [PlayerHit] @
                    (if obj_type obj = MISSILE then [ParticleBurst (position obj) ''#ff4400'']
                     else []),
                hasChanges := True \<rparr>)
         else (obj, fs))"

definition pickUp :: "FrameEnv \<Rightarrow> GameObject \<Rightarrow> FrameState \<Rightarrow> GameObject \<times> FrameState" where
  "pickUp env obj fs =
     (let dy = \<bar>vecY (position obj) - vecY (playerPos env)\<bar>
      in if dy < 2.5 then
           let fs1 = (if obj_type obj = GEM then
                        fs\<lparr> gameStore := collectGem (storeConstants env) (dateNow env)
                                (case points obj of None \<Rightarrow> 50
                                 | Some v \<Rightarrow> if v = 0 then 50 else v) (gameStore fs),
                            events := events fs @ [PlayGemCollect] \<rparr>
                      else fs);
               fs2 = (if obj_type obj = LETTER then
                        (case targetIndex obj of
                           None \<Rightarrow> fs1
                         | Some i \<Rightarrow>
                             fs1\<lparr> gameStore := collectLetter (storeConstants env) (dateNow env) i
                                     (gameStore fs1),
                                  events := events fs1 @ [PlayLetterCollect] \<rparr>)
                      else fs1);
               burst = ParticleBurst (position obj)
                         (case color obj of None \<Rightarrow> ''#ffffff''
                          | Some col \<Rightarrow> if col = [] then ''#ffffff'' else col)
           in (obj\<lparr> active := False \<rparr>,
               fs2\<lparr> events := events fs2 @ [burst], hasChanges := True \<rparr>)
         else (obj, fs))"

text \<open>
  The block under \<open>if (obj.active)\<close>: the object, the flag \<open>keep\<close> and the loop state.
  \<open>prevZ\<close> is the object's z before it moved.
\<close>

definition collide ::
  "FrameEnv \<Rightarrow> real \<Rightarrow> GameObject \<Rightarrow> FrameState \<Rightarrow> GameObject \<times> bool \<times> FrameState" where
  "collide env prevZ obj fs =
     (if active obj then
        let zThreshold = 2.0;
            inZZone = (prevZ < vecZ (playerPos env) + zThreshold
                       \<and> vecZ (position obj) > vecZ (playerPos env) - zThreshold)
        in if obj_type obj = SHOP_PORTAL then
             let dz = \<bar>vecZ (position obj) - vecZ (playerPos env)\<bar>
             in if dz < 2 then
                  (obj\<lparr> active := False \<rparr>, False,
                   fs\<lparr> gameStore := openShop (gameStore fs), hasChanges := True \<rparr>)
                else (obj, True, fs)
           else if inZZone then
             let dx = \<bar>vecX (position obj) - vecX (playerPos env)\<bar>
             in if dx < 0.9 then
                  let isDamageSource = (obj_type obj = OBSTACLE \<or> obj_type obj = ALIEN
                                        \<or> obj_type obj = MISSILE);
                      r = (if isDamageSource then hitDamageSource env obj fs
                           else pickUp env obj fs)
                  in (fst r, True, snd r)
                else (obj, True, fs)
           else (obj, True, fs)
      else (obj, True, fs))"

text \<open>The loop body for every object that is neither the boss nor a beam.\<close>

definition updateRegular :: "FrameEnv \<Rightarrow> GameObject \<Rightarrow> FrameState \<Rightarrow> FrameState" where
  "updateRegular env obj fs =
     (let moveAmount = frameDist env
            + (if obj_type obj = MISSILE then MISSILE_SPEED * safeDelta env else 0);
          prevZ = vecZ (position obj);
          obj1 = obj\<lparr> position := setZ (position obj) (prevZ + moveAmount) \<rparr>;
          a = alienAI env obj1 fs;
          r = collide env prevZ (fst a) (snd a);
          obj2 = fst r;
          fs1 = snd (snd r);
          gone = (vecZ (position obj2) > REMOVE_DISTANCE env);
          keep = (fst (snd r) \<and> \<not> gone);
          fs2 = (if gone then fs1\<lparr> hasChanges := True \<rparr> else fs1)
      in fs2\<lparr> keptObjects := keptObjects fs2 @ (if keep then [obj2] else []),
              visited := visited fs2 @ [obj2] \<rparr>)"

text \<open>The loop body.\<close>

definition updateObject :: "FrameEnv \<Rightarrow> GameObject \<Rightarrow> FrameState \<Rightarrow> FrameState" where
  "updateObject env obj fs =
     (if obj_type obj = BOSS then
        fs\<lparr> keptObjects := keptObjects fs @ [obj], visited := visited fs @ [obj] \<rparr>
      else if obj_type obj = BOSS_BEAM then updateBeam env obj fs
      else updateRegular env obj fs)"

text \<open>
  The loop state at the start of step 1: \<open>changed\<close> is \<open>hasChanges\<close> as the boss logic
  left it.
\<close>

definition frameStart :: "bool \<Rightarrow> GameState \<Rightarrow> nat \<Rightarrow> FrameState" where
  "frameStart changed st n =
     \<lparr> keptObjects = [], newSpawns = [], hasChanges = changed, events = [],
       gameStore = st, visited = [], uuidCount = n \<rparr>"

text \<open>Step 1: the loop over the current objects, then the new spawns are appended.\<close>

definition moveAndUpdate :: "FrameEnv \<Rightarrow> GameObject list \<Rightarrow> FrameState \<Rightarrow> FrameState" where
  "moveAndUpdate env objs fs0 =
     (let fs = fold (updateObject env) objs fs0
      in if newSpawns fs \<noteq> [] then fs\<lparr> keptObjects := keptObjects fs @ newSpawns fs \<rparr>
         else fs)"

text \<open>
  The end of the frame. \<open>spawnBatch\<close> lists the objects step 2 pushed onto
  \<open>keptObjects\<close> (letters, gems, aliens and obstacles); step 2 sets \<open>hasChanges\<close>
  whenever it pushes. If nothing changed, \<open>objectsRef.current\<close> stays the array it
  was, holding the visited objects.
\<close>

definition objectsAfter :: "FrameState \<Rightarrow> GameObject list \<Rightarrow> GameObject list" where
  "objectsAfter fs spawnBatch =
     (if hasChanges fs \<or> spawnBatch \<noteq> [] then keptObjects fs @ spawnBatch else visited fs)"

text \<open>A sample frame: the player stands in the middle lane, three beams in lanes 0, 0 and 2.\<close>

definition sampleEnv :: FrameEnv where
  "sampleEnv = \<lparr> storeConstants = sampleConstants, LANE_WIDTH = 2, REMOVE_DISTANCE = 20,
     uuidv4 = (\<lambda>n. replicate (Suc n) CHR ''u''), dateNow = 8000, renderedSpeed = 20,
     delta = 0.25, playerObj = Some (0, 0, 0) \<rparr>"

definition sampleBeam :: "int \<Rightarrow> real \<Rightarrow> GameObject" where
  "sampleBeam lane t = (newBeam sampleEnv ''beam'' lane) \<lparr> beamTimer := Some t \<rparr>"

definition fourBeams :: "GameObject list" where
  "fourBeams = [sampleBeam 0 1, sampleBeam 0 2.5, sampleBeam 2 2.5, sampleBeam 0 2.97]"

text \<open>A gem as step 2 spawns it.\<close>

definition sampleGem :: GameObject where
  "sampleGem =
     \<lparr> obj_id = ''gem'', obj_type = GEM, position = (2, 1.2, -120), active = True,
       color = Some ''#00ffff'', points = Some 50, targetIndex = None, hasFired = None,
       attackTimer = None, beamState = None, beamTimer = None, beamLane = None \<rparr>"

definition sampleStart :: FrameState where
  "sampleStart = frameStart False (fiveLetters 1) 0"

text \<open>A beam object is live when its timer is set and below 3.\<close>

definition beamLive :: "GameObject \<Rightarrow> bool" where
  "beamLive obj = (obj_type obj = BOSS_BEAM \<longrightarrow> (\<exists>t. beamTimer obj = Some t \<and> t < 3))"

text \<open>
  What the loop keeps true: every kept beam is live, every new spawn is a missile, and
  as long as \<open>hasChanges\<close> is unset every visited object was kept and nothing was spawned.
\<close>

definition loopInv :: "FrameState \<Rightarrow> bool" where
  "loopInv fs =
     ((\<forall>b \<in> set (keptObjects fs). beamLive b)
      \<and> (\<forall>b \<in> set (newSpawns fs). obj_type b = MISSILE)
      \<and> (\<not> hasChanges fs \<longrightarrow> visited fs = keptObjects fs \<and> newSpawns fs = []))"

section \<open>Properties of the store\<close>

subsection \<open>The combo rule\<close>

lemma collectGem_combo:
  "multiplier (collectGem c now v s) = comboMultiplier c now s
   \<and> multiplierEndTime (collectGem c now v s) = now + COMBO_WINDOW_MS c
   \<and> score (collectGem c now v s) = score s + v * comboMultiplier c now s"
  by (simp add: collectGem_def comboMultiplier_def Let_def)

lemma collectLetter_combo:
  assumes "\<not> (completesWord index s \<and> level s < MAX_LEVEL)"
  shows "multiplier (collectLetter c now index s) = comboMultiplier c now s
   \<and> multiplierEndTime (collectLetter c now index s) = now + COMBO_WINDOW_MS c"
  using assms
  by (auto simp add: collectLetter_def comboMultiplier_def completesWord_def Let_def)

lemma pickup_combo:
  assumes "noLevelUp c [(now, p)] s"
  shows "multiplier (pickup c now p s) = comboMultiplier c now s
   \<and> multiplierEndTime (pickup c now p s) = now + COMBO_WINDOW_MS c"
  using assms by (cases p) (simp_all add: collectGem_combo collectLetter_combo)

text \<open>
  A run of pickups, each less than a combo window after the one before, none of them
  the letter that completes the word below \<open>MAX_LEVEL\<close>: each raises the multiplier by
  one until \<open>MAX_MULTIPLIER\<close>, where it stays.
\<close>

lemma pickups_chain:
  assumes "multiplierEndTime s = prev + COMBO_WINDOW_MS c"
    and "spaced (COMBO_WINDOW_MS c) prev ps"
    and "noLevelUp c ps s"
    and "multiplier s \<le> MAX_MULTIPLIER c"
  shows "multiplier (pickups c ps s) = min (multiplier s + int (length ps)) (MAX_MULTIPLIER c)"
  using assms
proof (induction ps arbitrary: s prev)
  case Nil
  then show ?case by simp
next
  case (Cons x ps)
  obtain now p where x: "x = (now, p)" by (cases x)
  let ?s1 = "pickup c now p s"
  from Cons.prems x have act: "now < multiplierEndTime s" by simp
  from Cons.prems x have nl: "noLevelUp c [(now, p)] s" by (cases p) simp_all
  from pickup_combo [OF nl] act
  have m1: "multiplier ?s1 = min (multiplier s + 1) (MAX_MULTIPLIER c)"
    and e1: "multiplierEndTime ?s1 = now + COMBO_WINDOW_MS c"
    by (simp_all add: comboMultiplier_def)
  from Cons.prems x have sp: "spaced (COMBO_WINDOW_MS c) now ps" by simp
  from Cons.prems x have nl': "noLevelUp c ps ?s1" by (cases p) simp_all
  from m1 Cons.prems(4) have le: "multiplier ?s1 \<le> MAX_MULTIPLIER c" by simp
  from Cons.IH [OF e1 sp nl' le] m1 Cons.prems(4) x show ?case by simp
qed

text \<open>A pickup at or after the end of the window sets the multiplier to 1.\<close>

lemma pickup_reset:
  assumes "noLevelUp c [(now, p)] s" and "multiplierEndTime s \<le> now"
  shows "multiplier (pickup c now p s) = 1"
  using pickup_combo [OF assms(1)] assms(2) by (simp add: comboMultiplier_def)

text \<open>
  C1 (as amended). A call of \<open>collectLetter\<close> that does not complete the word (the index
  is already collected, or fewer than six letters are collected after it) adds exactly
  \<open>500 \<times> newMultiplier\<close> to the score, sets the multiplier to \<open>newMultiplier\<close> and the end
  of the combo window to \<open>now + COMBO_WINDOW_MS\<close>, where \<open>newMultiplier\<close> is
  \<open>min(multiplier+1, MAX_MULTIPLIER)\<close> if \<open>now < multiplierEndTime\<close> and 1 otherwise. The
  call that completes the word at \<open>level \<ge> MAX_LEVEL\<close> adds \<open>500 \<times> newMultiplier + 5000\<close>
  with the same multiplier and window. Nothing is stated here about the call that
  completes the word at \<open>level < MAX_LEVEL\<close>.
\<close>

theorem collectLetter_score:
  "(\<not> completesWord index s \<longrightarrow>
      letterScoreRule c now index s
      \<and> multiplier (collectLetter c now index s) = comboMultiplier c now s)
   \<and> (completesWord index s \<and> \<not> level s < MAX_LEVEL \<longrightarrow>
      score (collectLetter c now index s) = score s + 500 * comboMultiplier c now s + 5000
      \<and> multiplier (collectLetter c now index s) = comboMultiplier c now s
      \<and> multiplierEndTime (collectLetter c now index s) = now + COMBO_WINDOW_MS c)"
  by (auto simp add: collectLetter_def letterScoreRule_def comboMultiplier_def
      completesWord_def Let_def)

theorem collectLetter_score_witness:
  "\<not> completesWord 2 (fiveLetters 1) \<and> letterScoreRule sampleConstants 8000 2 (fiveLetters 1)
   \<and> multiplier (collectLetter sampleConstants 8000 2 (fiveLetters 1)) = 3
   \<and> completesWord 5 (fiveLetters 3) \<and> \<not> level (fiveLetters 3) < MAX_LEVEL
   \<and> score (collectLetter sampleConstants 8000 5 (fiveLetters 3)) = 1200 + 500 * 3 + 5000
   \<and> multiplierEndTime (collectLetter sampleConstants 8000 5 (fiveLetters 3)) = 10000"
proof -
  have a: "\<not> completesWord 2 (fiveLetters 1)"
    and b: "completesWord 5 (fiveLetters 3)" "\<not> level (fiveLetters 3) < MAX_LEVEL"
    and v: "comboMultiplier sampleConstants 8000 (fiveLetters 1) = 3"
      "comboMultiplier sampleConstants 8000 (fiveLetters 3) = 3"
      "score (fiveLetters 3) = 1200" "COMBO_WINDOW_MS sampleConstants = 2000"
    by (simp_all add: completesWord_def comboMultiplier_def fiveLetters_def startGame_def initialState_def sampleConstants_def
        MAX_LEVEL_def GEMINI_TARGET_def)
  from collectLetter_score [of 2 "fiveLetters 1" sampleConstants 8000]
    collectLetter_score [of 5 "fiveLetters 3" sampleConstants 8000] a b v
  show ?thesis by simp
qed

text \<open>
  The rule as worded fails on both calls that complete the word. At level 3 the call
  adds 6500 where the rule gives 1500 (the victory bonus comes on top). At level 1 the
  call leaves the score as it was: \<open>collectLetter\<close> returns right after \<open>advanceLevel\<close>,
  before \<open>set(updates)\<close>.
\<close>

theorem collectLetter_score_counterexample:
  "\<not> letterScoreRule sampleConstants 8000 5 (fiveLetters 3)
   \<and> score (collectLetter sampleConstants 8000 5 (fiveLetters 3)) = score (fiveLetters 3) + 6500
   \<and> 500 * comboMultiplier sampleConstants 8000 (fiveLetters 3) = 1500
   \<and> \<not> letterScoreRule sampleConstants 8000 5 (fiveLetters 1)
   \<and> score (collectLetter sampleConstants 8000 5 (fiveLetters 1)) = score (fiveLetters 1)"
  by (simp add: letterScoreRule_def collectLetter_def advanceLevel_def comboMultiplier_def
      Let_def fiveLetters_def startGame_def initialState_def sampleConstants_def
        MAX_LEVEL_def GEMINI_TARGET_def)

text \<open>
  C4. Pickups less than \<open>COMBO_WINDOW_MS\<close> apart should each raise the multiplier by one
  up to \<open>MAX_MULTIPLIER\<close>, and a pickup at or after \<open>multiplierEndTime\<close> should set it
  to 1. That holds for every run of pickups without the letter that completes the word
  below \<open>MAX_LEVEL\<close> (\<open>pickups_chain\<close>, \<open>pickup_reset\<close>). With that letter it fails,
  as evaluated here: the state is as a pickup at time 7000 left it, with multiplier 2
  and the window open until 9000. The sixth letter at 8000 should raise the multiplier
  to 3 and move the window's end to 10000; the call leaves them at 2 and 9000. A gem
  at 9500, 1500 ms after the letter, should raise the multiplier to 4; it finds the
  window closed and gets multiplier 1.
\<close>

theorem combo_lost_on_level_up:
  "multiplier (fiveLetters 1) = 2
   \<and> multiplierEndTime (fiveLetters 1) = 7000 + COMBO_WINDOW_MS sampleConstants
   \<and> spaced (COMBO_WINDOW_MS sampleConstants) 7000 [(8000, Letter 5), (9500, Gem 50)]
   \<and> completesWord 5 (fiveLetters 1) \<and> level (fiveLetters 1) < MAX_LEVEL
   \<and> comboMultiplier sampleConstants 8000 (fiveLetters 1) = 3
   \<and> multiplier (pickups sampleConstants [(8000, Letter 5)] (fiveLetters 1)) = 2
   \<and> multiplierEndTime (pickups sampleConstants [(8000, Letter 5)] (fiveLetters 1)) = 9000
   \<and> multiplier (pickups sampleConstants [(8000, Letter 5), (9500, Gem 50)] (fiveLetters 1)) = 1"
  by (simp add: collectLetter_def collectGem_def advanceLevel_def comboMultiplier_def
      completesWord_def Let_def fiveLetters_def startGame_def initialState_def
      sampleConstants_def MAX_LEVEL_def GEMINI_TARGET_def)

subsection \<open>Completing the word\<close>

text \<open>
  C2. From a PLAYING state with \<open>level < MAX_LEVEL\<close> and five distinct letters
  collected, \<open>collectLetter\<close> with the sixth index does exactly what one \<open>advanceLevel\<close>
  does: level goes up by 1, laneCount by 2 capped at 9, collectedLetters becomes empty,
  speed grows by \<open>0.4 \<times> RUN_SPEED_BASE\<close>, and status stays PLAYING.
\<close>

theorem collectLetter_level_up:
  assumes "status s = PLAYING" and "level s < MAX_LEVEL"
    and "length (collectedLetters s) = 5" and "distinct (collectedLetters s)"
    and "index \<notin> set (collectedLetters s)"
  shows "collectLetter c now index s = advanceLevel c s
    \<and> level (collectLetter c now index s) = level s + 1
    \<and> laneCount (collectLetter c now index s) = min (laneCount s + 2) 9
    \<and> collectedLetters (collectLetter c now index s) = []
    \<and> speed (collectLetter c now index s) = speed s + 0.4 * RUN_SPEED_BASE c
    \<and> status (collectLetter c now index s) = PLAYING"
  using assms
  by (simp add: collectLetter_def advanceLevel_def GEMINI_TARGET_def Let_def)

theorem collectLetter_level_up_witness:
  "status (fiveLetters 1) = PLAYING \<and> level (fiveLetters 1) < MAX_LEVEL
    \<and> collectedLetters (fiveLetters 1) = [0, 1, 2, 3, 4]
    \<and> collectLetter sampleConstants 8000 5 (fiveLetters 1) = advanceLevel sampleConstants (fiveLetters 1)
    \<and> level (collectLetter sampleConstants 8000 5 (fiveLetters 1)) = 2
    \<and> laneCount (collectLetter sampleConstants 8000 5 (fiveLetters 1)) = 5
    \<and> collectedLetters (collectLetter sampleConstants 8000 5 (fiveLetters 1)) = []
    \<and> speed (collectLetter sampleConstants 8000 5 (fiveLetters 1)) = 28
    \<and> status (collectLetter sampleConstants 8000 5 (fiveLetters 1)) = PLAYING"
proof -
  have h1: "status (fiveLetters 1) = PLAYING"
    and h2: "level (fiveLetters 1) < MAX_LEVEL"
    and h3: "length (collectedLetters (fiveLetters 1)) = 5"
    and h4: "distinct (collectedLetters (fiveLetters 1))"
    and h5: "5 \<notin> set (collectedLetters (fiveLetters 1))"
    and v: "collectedLetters (fiveLetters 1) = [0, 1, 2, 3, 4]" "level (fiveLetters 1) = 1"
      "laneCount (fiveLetters 1) = 3" "speed (fiveLetters 1) = 20"
      "RUN_SPEED_BASE sampleConstants = 20"
    by (simp_all add: fiveLetters_def startGame_def initialState_def sampleConstants_def
        MAX_LEVEL_def GEMINI_TARGET_def)
  from collectLetter_level_up [OF h1 h2 h3 h4 h5, of sampleConstants 8000] h1 h2 v
  show ?thesis by (simp add: advanceLevel_def)
qed

text \<open>
  C3. From a PLAYING state with \<open>level = MAX_LEVEL\<close> and five distinct letters
  collected, \<open>collectLetter\<close> with the sixth index sets status to VICTORY and adds 5000
  plus the letter's own \<open>500 \<times> newMultiplier\<close> to the score.
\<close>

theorem collectLetter_victory:
  assumes "status s = PLAYING" and "level s = MAX_LEVEL"
    and "length (collectedLetters s) = 5" and "distinct (collectedLetters s)"
    and "index \<notin> set (collectedLetters s)"
  shows "status (collectLetter c now index s) = VICTORY
    \<and> score (collectLetter c now index s) = score s + 5000 +
         500 * (if now < multiplierEndTime s then min (multiplier s + 1) (MAX_MULTIPLIER c) else 1)"
  using assms
  by (simp add: collectLetter_def GEMINI_TARGET_def Let_def)

theorem collectLetter_victory_witness:
  "status (fiveLetters 3) = PLAYING \<and> level (fiveLetters 3) = MAX_LEVEL
    \<and> collectedLetters (fiveLetters 3) = [0, 1, 2, 3, 4]
    \<and> status (collectLetter sampleConstants 8000 5 (fiveLetters 3)) = VICTORY
    \<and> score (collectLetter sampleConstants 8000 5 (fiveLetters 3)) = 1200 + 5000 + 500 * 3"
proof -
  have h1: "status (fiveLetters 3) = PLAYING"
    and h2: "level (fiveLetters 3) = MAX_LEVEL"
    and h3: "length (collectedLetters (fiveLetters 3)) = 5"
    and h4: "distinct (collectedLetters (fiveLetters 3))"
    and h5: "5 \<notin> set (collectedLetters (fiveLetters 3))"
    and v: "collectedLetters (fiveLetters 3) = [0, 1, 2, 3, 4]" "score (fiveLetters 3) = 1200"
      "multiplier (fiveLetters 3) = 2" "multiplierEndTime (fiveLetters 3) = 9000"
      "MAX_MULTIPLIER sampleConstants = 5"
    by (simp_all add: fiveLetters_def startGame_def initialState_def sampleConstants_def
        MAX_LEVEL_def GEMINI_TARGET_def)
  from collectLetter_victory [OF h1 h2 h3 h4 h5, of sampleConstants 8000] h1 h2 v
  show ?thesis by simp
qed

subsection \<open>Damage\<close>

lemma takeDamage_lives_nonneg: "0 \<le> lives s \<Longrightarrow> 0 \<le> lives (takeDamage s)"
  by (simp add: takeDamage_def Let_def)

lemma takeDamage_repeat_nonneg: "0 \<le> lives s \<Longrightarrow> 0 \<le> lives ((takeDamage ^^ n) s)"
  by (induction n) (simp_all add: takeDamage_lives_nonneg)

text \<open>
  C5. \<open>takeDamage\<close> changes nothing while \<open>isImmortalityActive\<close> holds. Otherwise it
  sets multiplier to 1 and multiplierEndTime to 0 and, if \<open>lives > 1\<close>, takes one life,
  else sets lives to 0, status to GAME_OVER and speed to 0. Any number of calls from a
  state with \<open>lives \<ge> 0\<close> leaves \<open>lives \<ge> 0\<close>.
\<close>

theorem takeDamage_spec:
  "(isImmortalityActive s \<longrightarrow> takeDamage s = s)
   \<and> (\<not> isImmortalityActive s \<longrightarrow>
        multiplier (takeDamage s) = 1 \<and> multiplierEndTime (takeDamage s) = 0
        \<and> (lives s > 1 \<longrightarrow>
             takeDamage s = s\<lparr> multiplier := 1, multiplierEndTime := 0, lives := lives s - 1 \<rparr>)
        \<and> (\<not> lives s > 1 \<longrightarrow>
             takeDamage s = s\<lparr> multiplier := 1, multiplierEndTime := 0, lives := 0,
                                status := GAME_OVER, speed := 0 \<rparr>))
   \<and> (0 \<le> lives s \<longrightarrow> 0 \<le> lives ((takeDamage ^^ n) s))"
  by (simp add: takeDamage_def Let_def takeDamage_repeat_nonneg)

theorem takeDamage_spec_witness:
  "isImmortalityActive shielded \<and> takeDamage shielded = shielded
   \<and> \<not> isImmortalityActive lastLife \<and> \<not> lives lastLife > 1
   \<and> takeDamage lastLife = lastLife\<lparr> multiplier := 1, multiplierEndTime := 0, lives := 0,
                                status := GAME_OVER, speed := 0 \<rparr>
   \<and> 0 \<le> lives lastLife \<and> 0 \<le> lives ((takeDamage ^^ 4) lastLife)"
proof -
  have a: "isImmortalityActive shielded"
    and b: "\<not> isImmortalityActive lastLife" "\<not> lives lastLife > 1" "0 \<le> lives lastLife"
    by (simp_all add: shielded_def lastLife_def startGame_def initialState_def)
  from takeDamage_spec [of shielded 4] takeDamage_spec [of lastLife 4] a b
  show ?thesis by simp
qed

subsection \<open>The shop\<close>

text \<open>
  C8. When \<open>score < cost\<close>, \<open>buyItem\<close> returns false and leaves the whole state as it
  was. When \<open>buyItem HEAL\<close> succeeds, lives is \<open>min(old lives + 1, maxLives)\<close>
  afterwards, so lives does not exceed maxLives.
\<close>

theorem buyItem_spec:
  "(score s < cost \<longrightarrow> buyItem item cost s = (False, s))
   \<and> (fst (buyItem HEAL cost s) \<longrightarrow>
        lives (snd (buyItem HEAL cost s)) = min (lives s + 1) (maxLives s)
        \<and> lives (snd (buyItem HEAL cost s)) \<le> maxLives (snd (buyItem HEAL cost s)))"
  by (simp add: buyItem_def Let_def)

theorem buyItem_spec_witness:
  "score shopper < 2000 \<and> buyItem MAX_LIFE 2000 shopper = (False, shopper)
   \<and> fst (buyItem HEAL 1000 shopper)
   \<and> lives (snd (buyItem HEAL 1000 shopper)) = 3
   \<and> lives (snd (buyItem HEAL 1000 shopper)) \<le> maxLives (snd (buyItem HEAL 1000 shopper))"
proof -
  have a: "score shopper < 2000" and b: "fst (buyItem HEAL 1000 shopper)"
    and v: "lives shopper = 2" "maxLives shopper = 3"
    by (simp_all add: shopper_def startGame_def initialState_def buyItem_def)
  from buyItem_spec [of shopper 2000 MAX_LIFE] buyItem_spec [of shopper 1000 MAX_LIFE] a b v
  show ?thesis by simp
qed

text \<open>
  C10. \<open>buyItem HEAL\<close> with \<open>score \<ge> cost\<close> and \<open>lives = maxLives\<close> returns true and
  takes the cost off the score; lives and maxLives stay as they were.
\<close>

theorem buyItem_heal_at_full_lives:
  assumes "score s \<ge> cost" and "lives s = maxLives s"
  shows "buyItem HEAL cost s = (True, s\<lparr> score := score s - cost \<rparr>)
    \<and> fst (buyItem HEAL cost s)
    \<and> score (snd (buyItem HEAL cost s)) = score s - cost
    \<and> lives (snd (buyItem HEAL cost s)) = lives s
    \<and> maxLives (snd (buyItem HEAL cost s)) = maxLives s"
  using assms by (simp add: buyItem_def Let_def)

theorem buyItem_heal_at_full_lives_witness:
  "score healthy \<ge> 1000 \<and> lives healthy = maxLives healthy
    \<and> fst (buyItem HEAL 1000 healthy)
    \<and> score (snd (buyItem HEAL 1000 healthy)) = 500
    \<and> lives (snd (buyItem HEAL 1000 healthy)) = 3
    \<and> maxLives (snd (buyItem HEAL 1000 healthy)) = 3"
proof -
  have a: "score healthy \<ge> 1000" and b: "lives healthy = maxLives healthy"
    and v: "score healthy = 1500" "lives healthy = 3"
    by (simp_all add: healthy_def startGame_def initialState_def)
  from buyItem_heal_at_full_lives [OF a b] a b v
  show ?thesis by simp
qed

subsection \<open>Status transitions\<close>

lemma enters_playing_edge: "x = PLAYING \<or> specEdge x PLAYING"
  by (cases x) simp_all

text \<open>
  C6 (as amended). A status change follows an edge of the graph when it is produced by
  any action other than \<open>setStatus\<close>, provided that \<open>openShop\<close>, \<open>takeDamage\<close> and
  \<open>collectLetter\<close> are called while the status is PLAYING; all other actions may be
  called in any status.
\<close>

theorem status_change_on_graph:
  assumes "\<not> isSetStatus a" and "needsPlaying a \<longrightarrow> status s = PLAYING"
  shows "status (fst (perform c now a s)) = status s
     \<or> specEdge (status s) (status (fst (perform c now a s)))"
proof (cases a)
  case StartGame
  then show ?thesis
    using enters_playing_edge [of "status s"] by (auto simp add: startGame_def)
next
  case RestartGame
  then show ?thesis
    using enters_playing_edge [of "status s"] by (auto simp add: restartGame_def)
next
  case TakeDamage
  with assms(2) show ?thesis by (simp add: takeDamage_def Let_def)
next
  case (AddScore x)
  then show ?thesis by (simp add: addScore_def)
next
  case (CollectGem x)
  then show ?thesis by (simp add: collectGem_def Let_def)
next
  case (CollectLetter x)
  with assms(2) show ?thesis by (simp add: collectLetter_def advanceLevel_def Let_def)
next
  case (SetStatus x)
  with assms(1) show ?thesis by simp
next
  case (SetDistance x)
  then show ?thesis by (simp add: setDistance_def)
next
  case TickCombo
  then show ?thesis by (simp add: tickCombo_def)
next
  case (BuyItem item cost)
  then show ?thesis by (simp add: buyItem_def Let_def split: ItemType.splits)
next
  case AdvanceLevel
  then show ?thesis
    using enters_playing_edge [of "status s"] by (auto simp add: advanceLevel_def Let_def)
next
  case OpenShop
  with assms(2) show ?thesis by (simp add: openShop_def)
next
  case CloseShop
  then show ?thesis
    using enters_playing_edge [of "status s"] by (auto simp add: closeShop_def)
next
  case ActivateImmortality
  then show ?thesis by (simp add: activateImmortality_def)
next
  case IncreaseLevel
  then show ?thesis by (simp add: increaseLevel_def)
qed

theorem status_change_on_graph_witness:
  "\<not> isSetStatus OpenShop \<and> needsPlaying OpenShop \<and> status (fiveLetters 1) = PLAYING
   \<and> status (fst (perform sampleConstants 0 OpenShop (fiveLetters 1))) = SHOP
   \<and> specEdge PLAYING SHOP
   \<and> \<not> isSetStatus (BuyItem HEAL 1000) \<and> \<not> needsPlaying (BuyItem HEAL 1000)
   \<and> status inShop = SHOP
   \<and> status (fst (perform sampleConstants 0 (BuyItem HEAL 1000) inShop)) = SHOP
   \<and> \<not> isSetStatus StartGame \<and> \<not> needsPlaying StartGame \<and> status initialState = MENU
   \<and> status (fst (perform sampleConstants 0 StartGame initialState)) = PLAYING
   \<and> specEdge MENU PLAYING"
proof -
  have a: "\<not> isSetStatus OpenShop"
    and b: "needsPlaying OpenShop \<longrightarrow> status (fiveLetters 1) = PLAYING"
    and a': "\<not> isSetStatus (BuyItem HEAL 1000)"
    and b': "needsPlaying (BuyItem HEAL 1000) \<longrightarrow> status inShop = PLAYING"
    and a'': "\<not> isSetStatus StartGame"
    and b'': "needsPlaying StartGame \<longrightarrow> status initialState = PLAYING"
    and v: "status (fiveLetters 1) = PLAYING" "status initialState = MENU" "status inShop = SHOP"
    by (simp_all add: fiveLetters_def inShop_def shopper_def startGame_def initialState_def)
  from status_change_on_graph [OF a b, of sampleConstants 0]
    status_change_on_graph [OF a' b', of sampleConstants 0]
    status_change_on_graph [OF a'' b'', of sampleConstants 0] v
  show ?thesis by (simp add: openShop_def startGame_def buyItem_def)
qed

text \<open>
  Each of the four exclusions is needed: \<open>openShop\<close> in MENU gives SHOP, \<open>takeDamage\<close>
  on the last life in SHOP gives GAME_OVER, the letter that completes the word at
  level 3 in GAME_OVER gives VICTORY, and \<open>setStatus MENU\<close> in PLAYING gives MENU. None
  of these is an edge of the graph.
\<close>

theorem status_graph_counterexample:
  "status initialState = MENU
   \<and> status (fst (perform sampleConstants 0 OpenShop initialState)) = SHOP
   \<and> \<not> specEdge MENU SHOP
   \<and> status shopLastLife = SHOP
   \<and> status (fst (perform sampleConstants 0 TakeDamage shopLastLife)) = GAME_OVER
   \<and> \<not> specEdge SHOP GAME_OVER
   \<and> status gameOverFive = GAME_OVER
   \<and> status (fst (perform sampleConstants 8000 (CollectLetter 5) gameOverFive)) = VICTORY
   \<and> \<not> specEdge GAME_OVER VICTORY
   \<and> status (fiveLetters 1) = PLAYING
   \<and> status (fst (perform sampleConstants 0 (SetStatus MENU) (fiveLetters 1))) = MENU
   \<and> \<not> specEdge PLAYING MENU"
  by (simp add: gameOverFive_def shopLastLife_def lastLife_def openShop_def takeDamage_def
      collectLetter_def setStatus_def Let_def fiveLetters_def startGame_def initialState_def
      sampleConstants_def MAX_LEVEL_def GEMINI_TARGET_def)

subsection \<open>The immortality timer\<close>

text \<open>
  C7. A callback left pending by the run before \<open>restartGame\<close> should not end an
  activation of the new run early. Evaluated on \<open>staleTimerTrace\<close>: after the second
  activation at time 3000 the flag is set and two callbacks are pending, due at 6000
  and 8000. When the first falls due at 6000, three seconds into the activation, the
  flag is cleared.
\<close>

theorem stale_timer_clears_new_activation:
  "isImmortalityActive (store (run sampleConstants staleTimerTrace boot))
   \<and> pending (run sampleConstants staleTimerTrace boot) = [6000, 8000]
   \<and> \<not> isImmortalityActive (store (fireTimers 6000 (run sampleConstants staleTimerTrace boot)))
   \<and> pending (fireTimers 6000 (run sampleConstants staleTimerTrace boot)) = [8000]"
  by (simp add: staleTimerTrace_def boot_def dispatch_def fireTimers_def
      activateImmortality_def immortalityTimeout_def restartGame_def addScore_def
      buyItem_def Let_def fiveLetters_def startGame_def initialState_def sampleConstants_def
        MAX_LEVEL_def GEMINI_TARGET_def)

section \<open>Properties of the frame\<close>

subsection \<open>What each block of the loop body leaves alone\<close>

lemma alienAI_obj:
  "obj_type (fst (alienAI env obj fs)) = obj_type obj
   \<and> beamTimer (fst (alienAI env obj fs)) = beamTimer obj"
  by (simp add: alienAI_def)

lemma alienAI_state:
  "keptObjects (snd (alienAI env obj fs)) = keptObjects fs
   \<and> visited (snd (alienAI env obj fs)) = visited fs
   \<and> (hasChanges fs \<longrightarrow> hasChanges (snd (alienAI env obj fs)))
   \<and> (newSpawns (snd (alienAI env obj fs)) = newSpawns fs
        \<or> hasChanges (snd (alienAI env obj fs))
           \<and> (\<exists>m. obj_type m = MISSILE \<and> newSpawns (snd (alienAI env obj fs)) = newSpawns fs @ [m]))"
  by (simp add: alienAI_def newMissile_def)

lemma hitDamageSource_facts:
  "obj_type (fst (hitDamageSource env obj fs)) = obj_type obj
   \<and> beamTimer (fst (hitDamageSource env obj fs)) = beamTimer obj
   \<and> keptObjects (snd (hitDamageSource env obj fs)) = keptObjects fs
   \<and> visited (snd (hitDamageSource env obj fs)) = visited fs
   \<and> newSpawns (snd (hitDamageSource env obj fs)) = newSpawns fs
   \<and> (hasChanges fs \<longrightarrow> hasChanges (snd (hitDamageSource env obj fs)))"
  by (simp add: hitDamageSource_def Let_def)

lemma pickUp_facts:
  "obj_type (fst (pickUp env obj fs)) = obj_type obj
   \<and> beamTimer (fst (pickUp env obj fs)) = beamTimer obj
   \<and> keptObjects (snd (pickUp env obj fs)) = keptObjects fs
   \<and> visited (snd (pickUp env obj fs)) = visited fs
   \<and> newSpawns (snd (pickUp env obj fs)) = newSpawns fs
   \<and> (hasChanges fs \<longrightarrow> hasChanges (snd (pickUp env obj fs)))"
  by (simp add: pickUp_def Let_def split: option.splits)

lemma collide_facts:
  "obj_type (fst (collide env z obj fs)) = obj_type obj
   \<and> beamTimer (fst (collide env z obj fs)) = beamTimer obj
   \<and> keptObjects (snd (snd (collide env z obj fs))) = keptObjects fs
   \<and> visited (snd (snd (collide env z obj fs))) = visited fs
   \<and> newSpawns (snd (snd (collide env z obj fs))) = newSpawns fs
   \<and> (hasChanges fs \<longrightarrow> hasChanges (snd (snd (collide env z obj fs))))
   \<and> (fst (snd (collide env z obj fs)) \<or> hasChanges (snd (snd (collide env z obj fs))))"
  by (simp add: collide_def Let_def hitDamageSource_facts pickUp_facts)

subsection \<open>The loop invariant\<close>

lemma updateBeam_inv: "loopInv fs \<Longrightarrow> loopInv (updateBeam env obj fs)"
  by (auto simp add: loopInv_def updateBeam_def beamLive_def Let_def)

lemma updateRegular_inv:
  assumes "loopInv fs" and "obj_type obj \<noteq> BOSS_BEAM"
  shows "loopInv (updateRegular env obj fs)"
proof -
  let ?obj1 = "obj\<lparr> position := setZ (position obj) (vecZ (position obj) +
     (frameDist env + (if obj_type obj = MISSILE then MISSILE_SPEED * safeDelta env else 0))) \<rparr>"
  let ?a = "alienAI env ?obj1 fs"
  let ?r = "collide env (vecZ (position obj)) (fst ?a) (snd ?a)"
  have ty: "obj_type (fst ?r) = obj_type obj"
    using collide_facts [of env "vecZ (position obj)" "fst ?a" "snd ?a"]
      alienAI_obj [of env ?obj1 fs] by simp
  have st: "keptObjects (snd (snd ?r)) = keptObjects fs" "visited (snd (snd ?r)) = visited fs"
    "hasChanges fs \<longrightarrow> hasChanges (snd (snd ?r))"
    "fst (snd ?r) \<or> hasChanges (snd (snd ?r))"
    using collide_facts [of env "vecZ (position obj)" "fst ?a" "snd ?a"]
      alienAI_state [of env ?obj1 fs] by simp_all
  have sp: "newSpawns (snd (snd ?r)) = newSpawns fs
     \<or> hasChanges (snd (snd ?r))
        \<and> (\<exists>m. obj_type m = MISSILE \<and> newSpawns (snd (snd ?r)) = newSpawns fs @ [m])"
    using collide_facts [of env "vecZ (position obj)" "fst ?a" "snd ?a"]
      alienAI_state [of env ?obj1 fs] by auto
  have live: "beamLive (fst ?r)"
    using ty assms(2) by (simp add: beamLive_def)
  from assms(1) st sp live show ?thesis
    unfolding updateRegular_def loopInv_def Let_def
    by auto
qed

lemma updateObject_inv: "loopInv fs \<Longrightarrow> loopInv (updateObject env obj fs)"
  by (cases "obj_type obj = BOSS_BEAM")
     (auto simp add: updateObject_def updateBeam_inv updateRegular_inv,
      auto simp add: loopInv_def beamLive_def)

lemma fold_updateObject_inv: "loopInv fs \<Longrightarrow> loopInv (fold (updateObject env) objs fs)"
  by (induction objs arbitrary: fs) (simp_all add: updateObject_inv)

lemma frameStart_inv: "loopInv (frameStart changed st n)"
  by (simp add: loopInv_def frameStart_def)

lemma moveAndUpdate_inv:
  assumes "loopInv fs"
  shows "loopInv (moveAndUpdate env objs fs)"
proof -
  from assms have "loopInv (fold (updateObject env) objs fs)"
    by (rule fold_updateObject_inv)
  then show ?thesis
    by (auto simp add: moveAndUpdate_def loopInv_def beamLive_def Let_def)
qed

text \<open>After the frame, every beam in the object list has a timer below 3.\<close>

lemma objectsAfter_beams:
  assumes "\<forall>b \<in> set spawnBatch. obj_type b \<noteq> BOSS_BEAM"
  shows "\<forall>b \<in> set (objectsAfter (moveAndUpdate env objs (frameStart changed st n)) spawnBatch).
           obj_type b = BOSS_BEAM \<longrightarrow> (\<exists>t. beamTimer b = Some t \<and> t < 3)"
proof -
  have "loopInv (moveAndUpdate env objs (frameStart changed st n))"
    by (simp add: moveAndUpdate_inv frameStart_inv)
  with assms show ?thesis
    by (auto simp add: objectsAfter_def loopInv_def beamLive_def)
qed

text \<open>A beam as the boss logic creates it stands at its lane's x offset.\<close>

lemma newBeam_x: "vecX (position (newBeam env ident lane)) = real_of_int lane * LANE_WIDTH env"
  by (simp add: newBeam_def)

subsection \<open>Boss beams\<close>

text \<open>
  C9. On a frame with simulation step \<open>dt\<close> (\<open>safeDelta\<close>, the frame's delta clamped to
  0.05), the loop body does the following with a \<open>BOSS_BEAM\<close> object: its timer becomes
  the old timer plus \<open>dt\<close>. If the timer is then below 2, the state is WARNING, the object
  is kept and no event is sent. If it is at least 2 and below 3, the state is ACTIVE, the
  object is kept, and one \<open>player-hit\<close> event is sent exactly when the distance between
  the beam's x and the player's x is below 0.9. If it is 3 or more, the object is set
  inactive, is not kept, and \<open>hasChanges\<close> is set, so that the kept objects replace the
  object list. Hence, as long as spawning adds no beams, every beam in the object
  list after the frame has a timer below 3.
\<close>

theorem boss_beam_step:
  "(obj_type obj = BOSS_BEAM \<longrightarrow>
     (let t = beamTimerOr0 obj + safeDelta env;
          obj' = obj\<lparr> beamTimer := Some t \<rparr>;
          hit = (\<bar>vecX (position obj) - vecX (playerPos env)\<bar> < 0.9)
      in (t < 2 \<longrightarrow>
            updateObject env obj fs =
              fs\<lparr> keptObjects := keptObjects fs @ [obj'\<lparr> beamState := Some WARNING \<rparr>],
                  visited := visited fs @ [obj'\<lparr> beamState := Some WARNING \<rparr>] \<rparr>)
       \<and> (2 \<le> t \<and> t < 3 \<longrightarrow>
            updateObject env obj fs =
              fs\<lparr> events := events fs @ (if hit then [PlayerHit] else []),
                  keptObjects := keptObjects fs @ [obj'\<lparr> beamState := Some ACTIVE \<rparr>],
                  visited := visited fs @ [obj'\<lparr> beamState := Some ACTIVE \<rparr>] \<rparr>)
       \<and> (3 \<le> t \<longrightarrow>
            updateObject env obj fs =
              fs\<lparr> hasChanges := True,
                  visited := visited fs @ [obj'\<lparr> active := False \<rparr>] \<rparr>)))
   \<and> ((\<forall>b \<in> set spawnBatch. obj_type b \<noteq> BOSS_BEAM) \<longrightarrow>
       (\<forall>b \<in> set (objectsAfter (moveAndUpdate env objs (frameStart changed st n)) spawnBatch).
          obj_type b = BOSS_BEAM \<longrightarrow> (\<exists>t. beamTimer b = Some t \<and> t < 3)))"
proof (intro conjI impI)
  assume "obj_type obj = BOSS_BEAM"
  then show "let t = beamTimerOr0 obj + safeDelta env;
          obj' = obj\<lparr> beamTimer := Some t \<rparr>;
          hit = (\<bar>vecX (position obj) - vecX (playerPos env)\<bar> < 0.9)
      in (t < 2 \<longrightarrow>
            updateObject env obj fs =
              fs\<lparr> keptObjects := keptObjects fs @ [obj'\<lparr> beamState := Some WARNING \<rparr>],
                  visited := visited fs @ [obj'\<lparr> beamState := Some WARNING \<rparr>] \<rparr>)
       \<and> (2 \<le> t \<and> t < 3 \<longrightarrow>
            updateObject env obj fs =
              fs\<lparr> events := events fs @ (if hit then [PlayerHit] else []),
                  keptObjects := keptObjects fs @ [obj'\<lparr> beamState := Some ACTIVE \<rparr>],
                  visited := visited fs @ [obj'\<lparr> beamState := Some ACTIVE \<rparr>] \<rparr>)
       \<and> (3 \<le> t \<longrightarrow>
            updateObject env obj fs =
              fs\<lparr> hasChanges := True,
                  visited := visited fs @ [obj'\<lparr> active := False \<rparr>] \<rparr>)"
    by (simp add: updateObject_def updateBeam_def Let_def)
next
  assume "\<forall>b \<in> set spawnBatch. obj_type b \<noteq> BOSS_BEAM"
  then show "\<forall>b \<in> set (objectsAfter (moveAndUpdate env objs (frameStart changed st n)) spawnBatch).
          obj_type b = BOSS_BEAM \<longrightarrow> (\<exists>t. beamTimer b = Some t \<and> t < 3)"
    by (rule objectsAfter_beams)
qed

theorem boss_beam_step_witness:
  "obj_type (sampleBeam 0 1) = BOSS_BEAM
   \<and> beamTimerOr0 (sampleBeam 0 1) + safeDelta sampleEnv = 1.05
   \<and> map beamState (keptObjects (updateObject sampleEnv (sampleBeam 0 1) sampleStart)) = [Some WARNING]
   \<and> events (updateObject sampleEnv (sampleBeam 0 1) sampleStart) = []
   \<and> beamTimerOr0 (sampleBeam 0 2.5) + safeDelta sampleEnv = 2.55
   \<and> map beamState (keptObjects (updateObject sampleEnv (sampleBeam 0 2.5) sampleStart)) = [Some ACTIVE]
   \<and> events (updateObject sampleEnv (sampleBeam 0 2.5) sampleStart) = [PlayerHit]
   \<and> events (updateObject sampleEnv (sampleBeam 2 2.5) sampleStart) = []
   \<and> beamTimerOr0 (sampleBeam 0 2.97) + safeDelta sampleEnv = 3.02
   \<and> keptObjects (updateObject sampleEnv (sampleBeam 0 2.97) sampleStart) = []
   \<and> map active (visited (updateObject sampleEnv (sampleBeam 0 2.97) sampleStart)) = [False]
   \<and> hasChanges (updateObject sampleEnv (sampleBeam 0 2.97) sampleStart)
   \<and> list_all (\<lambda>b. obj_type b \<noteq> BOSS_BEAM) [sampleGem]
   \<and> map obj_type (objectsAfter (moveAndUpdate sampleEnv fourBeams sampleStart) [sampleGem]) =
        [BOSS_BEAM, BOSS_BEAM, BOSS_BEAM, GEM]
   \<and> map beamTimer (objectsAfter (moveAndUpdate sampleEnv fourBeams sampleStart) [sampleGem]) =
        [Some 1.05, Some 2.55, Some 2.55, None]"
proof -
  have ty: "obj_type (sampleBeam 0 1) = BOSS_BEAM" "obj_type (sampleBeam 0 2.5) = BOSS_BEAM"
    "obj_type (sampleBeam 2 2.5) = BOSS_BEAM" "obj_type (sampleBeam 0 2.97) = BOSS_BEAM"
    by (simp_all add: sampleBeam_def newBeam_def sampleEnv_def safeDelta_def playerPos_def
        beamTimerOr0_def sampleStart_def frameStart_def)
  have t: "beamTimerOr0 (sampleBeam 0 1) + safeDelta sampleEnv = 1.05"
    "beamTimerOr0 (sampleBeam 0 2.5) + safeDelta sampleEnv = 2.55"
    "beamTimerOr0 (sampleBeam 2 2.5) + safeDelta sampleEnv = 2.55"
    "beamTimerOr0 (sampleBeam 0 2.97) + safeDelta sampleEnv = 3.02"
    by (simp_all add: sampleBeam_def newBeam_def sampleEnv_def safeDelta_def playerPos_def
        beamTimerOr0_def sampleStart_def frameStart_def)
  have x: "\<bar>vecX (position (sampleBeam 0 2.5)) - vecX (playerPos sampleEnv)\<bar> < 0.9"
    "\<not> \<bar>vecX (position (sampleBeam 2 2.5)) - vecX (playerPos sampleEnv)\<bar> < 0.9"
    by (simp_all add: sampleBeam_def newBeam_def sampleEnv_def safeDelta_def playerPos_def
        beamTimerOr0_def sampleStart_def frameStart_def)
  have e: "events sampleStart = []" "keptObjects sampleStart = []" "visited sampleStart = []"
    by (simp_all add: sampleBeam_def newBeam_def sampleEnv_def safeDelta_def playerPos_def
        beamTimerOr0_def sampleStart_def frameStart_def)
  have g: "\<forall>b \<in> set [sampleGem]. obj_type b \<noteq> BOSS_BEAM"
    by (simp add: sampleGem_def)
  note s = boss_beam_step [where env = sampleEnv and fs = sampleStart
      and spawnBatch = "[sampleGem]" and objs = fourBeams and changed = False
      and st = "fiveLetters 1" and n = 0]
  have vals:
    "map obj_type (objectsAfter (moveAndUpdate sampleEnv fourBeams sampleStart) [sampleGem]) =
        [BOSS_BEAM, BOSS_BEAM, BOSS_BEAM, GEM]"
    "map beamTimer (objectsAfter (moveAndUpdate sampleEnv fourBeams sampleStart) [sampleGem]) =
        [Some 1.05, Some 2.55, Some 2.55, None]"
    by (simp_all add: fourBeams_def objectsAfter_def moveAndUpdate_def updateObject_def
        updateBeam_def Let_def sampleGem_def sampleBeam_def newBeam_def sampleEnv_def safeDelta_def playerPos_def
        beamTimerOr0_def sampleStart_def frameStart_def)
  from s [of "sampleBeam 0 1"] s [of "sampleBeam 0 2.5"] s [of "sampleBeam 2 2.5"]
    s [of "sampleBeam 0 2.97"] ty t x e g vals
  show ?thesis
    by (simp add: Let_def)
qed

end
